theory Spec2Isabelle
  imports Main "HOL-Library.AList" "HOL-Library.Word"
begin

section \<open>Python values used by the reader\<close>

text \<open>
  The reader (\<^verbatim>\<open>renderme_360_reader.py\<close>, class \<^verbatim>\<open>SMCReader\<close>) raises Python
  exceptions; every raise of the source is a value \<open>Inl e\<close> of the model. An
  \<^verbatim>\<open>assert c, msg\<close> that fails is \<open>AssertionError msg\<close>; a missing key of a group or
  of a dict is \<open>KeyError key\<close>; any access through a closed file handle is
  \<open>ClosedFileError\<close> (the container library raises a \<^verbatim>\<open>ValueError\<close> for the
  invalid file identifier; it gets a constructor of its own to keep it apart from the
  \<^verbatim>\<open>ValueError\<close>s of \<^verbatim>\<open>int\<close> and \<^verbatim>\<open>np.stack\<close>).
\<close>

datatype py_error =
    AssertionError string
  | KeyError string
  | ValueError string
  | TypeError string
  | AttributeError string
  | IndexError string
  | AxisError string
  | UnboundLocalError string
  | ClosedFileError

definition bnd :: "py_error + 'a \<Rightarrow> ('a \<Rightarrow> py_error + 'b) \<Rightarrow> py_error + 'b" where
  "bnd m f = (case m of Inl e \<Rightarrow> Inl e | Inr x \<Rightarrow> f x)"

definition py_assert :: "bool \<Rightarrow> string \<Rightarrow> py_error + unit" where
  "py_assert c msg = (if c then Inr () else Inl (AssertionError msg))"

text \<open>
  \<^verbatim>\<open>for x in xs: rs.append(f(x))\<close>: the results in order, or the first exception.
\<close>

fun collect :: "('a \<Rightarrow> py_error + 'b) \<Rightarrow> 'a list \<Rightarrow> py_error + 'b list" where
  "collect f [] = Inr []"
| "collect f (x # xs) =
     (case f x of
        Inl e \<Rightarrow> Inl e
      | Inr y \<Rightarrow> (case collect f xs of Inl e \<Rightarrow> Inl e | Inr ys \<Rightarrow> Inr (y # ys)))"

subsection \<open>\<^verbatim>\<open>str\<close> and \<^verbatim>\<open>int\<close>\<close>

text \<open>
  Camera and frame identifiers are documented as ``int/str of a number''. \<^verbatim>\<open>str\<close> of
  an \<^verbatim>\<open>int\<close> is its decimal form, with a minus sign when negative and no padding;
  \<^verbatim>\<open>str\<close> of a \<^verbatim>\<open>str\<close> is the string itself.
\<close>

datatype py_num = PInt int | PStr string

definition digit_char :: "nat \<Rightarrow> char" where
  "digit_char d = char_of (of_char (CHR ''0'') + d)"

fun dec_digits :: "nat \<Rightarrow> string" where
  "dec_digits n =
     (if n < 10 then [digit_char n] else dec_digits (n div 10) @ [digit_char (n mod 10)])"

declare dec_digits.simps [simp del]

definition str_of_int :: "int \<Rightarrow> string" where
  "str_of_int i = (if i < 0 then CHR ''-'' # dec_digits (nat (- i)) else dec_digits (nat i))"

fun py_str :: "py_num \<Rightarrow> string" where
  "py_str (PInt i) = str_of_int i"
| "py_str (PStr s) = s"

text \<open>
  \<^verbatim>\<open>int(s)\<close> for a string: surrounding whitespace is stripped, one sign is allowed,
  and the body is decimal digits in which single underscores may stand between digits;
  anything else is a \<^verbatim>\<open>ValueError\<close>. Characters are bytes here, so only the ASCII
  digits and the ASCII whitespace are digits and whitespace.
\<close>

definition is_digit :: "char \<Rightarrow> bool" where
  "is_digit c = (of_char (CHR ''0'') \<le> (of_char c :: nat) \<and> (of_char c :: nat) \<le> of_char (CHR ''9''))"

definition digit_val :: "char \<Rightarrow> nat" where
  "digit_val c = of_char c - of_char (CHR ''0'')"

definition is_space :: "char \<Rightarrow> bool" where
  "is_space c = (c = CHR '' '' \<or> ((9::nat) \<le> of_char c \<and> (of_char c :: nat) \<le> 13))"

definition strip :: "string \<Rightarrow> string" where
  "strip s = rev (dropWhile is_space (rev (dropWhile is_space s)))"

fun int_body :: "bool \<Rightarrow> nat \<Rightarrow> string \<Rightarrow> nat option" where
  "int_body d acc [] = (if d then Some acc else None)"
| "int_body d acc (c # cs) =
     (if is_digit c then int_body True (acc * 10 + digit_val c) cs
      else if c = CHR ''_'' \<and> d then int_body False acc cs
      else None)"

definition int_of_str :: "string \<Rightarrow> py_error + int" where
  "int_of_str s =
     (case strip s of
        [] \<Rightarrow> Inl (ValueError s)
      | c # cs \<Rightarrow>
          (if c = CHR ''-'' then
             (case int_body False 0 cs of None \<Rightarrow> Inl (ValueError s) | Some n \<Rightarrow> Inr (- int n))
           else if c = CHR ''+'' then
             (case int_body False 0 cs of None \<Rightarrow> Inl (ValueError s) | Some n \<Rightarrow> Inr (int n))
           else
             (case int_body False 0 (c # cs) of None \<Rightarrow> Inl (ValueError s) | Some n \<Rightarrow> Inr (int n))))"

fun py_int :: "py_num \<Rightarrow> py_error + int" where
  "py_int (PInt i) = Inr i"
| "py_int (PStr s) = int_of_str s"

text \<open>\<^verbatim>\<open>'%02d' % i\<close>: the decimal form, zero-padded to width two (the sign counts).\<close>

definition fmt_02d :: "int \<Rightarrow> string" where
  "fmt_02d i =
     (if i < 0 then CHR ''-'' # replicate (1 - length (dec_digits (nat (- i)))) (CHR ''0'') @ dec_digits (nat (- i))
      else replicate (2 - length (dec_digits (nat i))) (CHR ''0'') @ dec_digits (nat i))"

text \<open>\<^verbatim>\<open>s.split(sep)\<close> with an explicit one-character separator: never an empty list.\<close>

fun py_split :: "char \<Rightarrow> string \<Rightarrow> string list" where
  "py_split sep [] = [[]]"
| "py_split sep (c # cs) =
     (if c = sep then [] # py_split sep cs
      else (case py_split sep cs of [] \<Rightarrow> [[c]] | w # ws \<Rightarrow> (c # w) # ws))"

subsection \<open>Arrays\<close>

text \<open>
  A numpy array is its shape and its elements in row-major order. \<open>nd_wf\<close> says that
  the buffer has as many elements as the shape asks for.
\<close>

datatype 'e ndarray = NDArray (shape: "nat list") (data: "'e list")

type_synonym u8 = "8 word"

definition nd_wf :: "'e ndarray \<Rightarrow> bool" where
  "nd_wf a = (length (data a) = prod_list (shape a))"

text \<open>\<open>a[i]\<close>, \<open>a[i, j]\<close> and \<open>a[i, j, k]\<close> for indices inside the shape.\<close>

definition nd_slice :: "'e ndarray \<Rightarrow> nat \<Rightarrow> 'e ndarray" where
  "nd_slice a i =
     NDArray (tl (shape a))
       (take (prod_list (tl (shape a))) (drop (i * prod_list (tl (shape a))) (data a)))"

definition nd_get2 :: "'e ndarray \<Rightarrow> nat \<Rightarrow> nat \<Rightarrow> 'e" where
  "nd_get2 a i j = data a ! (i * (shape a ! 1) + j)"

definition nd_get3 :: "'e ndarray \<Rightarrow> nat \<Rightarrow> nat \<Rightarrow> nat \<Rightarrow> 'e" where
  "nd_get3 a i j k = data a ! ((i * (shape a ! 1) + j) * (shape a ! 2) + k)"

text \<open>
  \<^verbatim>\<open>np.max(a, 2)\<close>: the maximum along axis 2. The axis must exist and must not be
  empty; the result drops the axis. Elements after axis 2 (an array of more than three
  dimensions) stay apart: the element at offset \<open>r\<close> of the \<open>q\<close>-th block is the maximum
  of the elements at offset \<open>r\<close> of the block's \<open>c\<close> rows.
\<close>

fun chunks :: "nat \<Rightarrow> 'a list \<Rightarrow> 'a list list" where
  "chunks n [] = []"
| "chunks n (x # xs) =
     (if n = 0 then [] else take n (x # xs) # chunks n (drop n (x # xs)))"

definition max_list :: "u8 list \<Rightarrow> u8" where
  "max_list xs = foldr max xs 0"

definition block_max :: "nat \<Rightarrow> u8 list \<Rightarrow> u8 list" where
  "block_max inner blk = map (\<lambda>r. max_list (map (\<lambda>row. row ! r) (chunks inner blk))) [0..<inner]"

definition np_max_axis2 :: "u8 ndarray \<Rightarrow> py_error + u8 ndarray" where
  "np_max_axis2 a =
     (case shape a of
        h # w # c # rest \<Rightarrow>
          (if c = 0 then Inl (ValueError ''zero-size array to reduction operation maximum which has no identity'')
           else Inr (NDArray (h # w # rest)
                  (concat (map (block_max (prod_list rest)) (chunks (c * prod_list rest) (data a))))))
      | _ \<Rightarrow> Inl (AxisError ''axis 2 is out of bounds''))"

text \<open>
  \<^verbatim>\<open>np.stack(rs, axis=0)\<close>: at least one array, all of one shape; the result has a new
  leading axis and the arrays' elements one after the other.
\<close>

definition np_stack :: "'e ndarray list \<Rightarrow> py_error + 'e ndarray" where
  "np_stack rs =
     (case rs of
        [] \<Rightarrow> Inl (ValueError ''need at least one array to stack'')
      | a # _ \<Rightarrow>
          (if list_all (\<lambda>b. shape b = shape a) rs
           then Inr (NDArray (length rs # shape a) (concat (map data rs)))
           else Inl (ValueError ''all input arrays must have the same shape'')))"

section \<open>The container\<close>

text \<open>
  The container is a hierarchical file of named groups, datasets and attributes. It is
  modelled by its documented layout:
  \<^verbatim>\<open>
  / (attrs)
  /Calibration/{cam_id}/{D,K,RT}
  /Camera (attrs) /Camera/{cam_id}/{color,mask,audio}/{key}
  /Keypoints2d/{cam_id}/{frame_id}
  /Keypoints3d (attrs) /Keypoints3d/{frame_id}
  \<close>
  A group is the list of its members by name, in the order \<^verbatim>\<open>keys()\<close> gives them; a
  section that the file does not have is \<open>None\<close>. The file is opened read-only, so its
  contents never change; \<open>closed\<close> says whether the handle has been closed.
\<close>

type_synonym 'a group = "(string \<times> 'a) list"

datatype attr = AInt int | AStr string | AInts "int list"

record 'e h5file =
  closed :: bool
  attrs :: "attr group"
  Calibration :: "'e ndarray group group option"
  Camera :: "(attr group \<times> 'e ndarray group group group) option"
  Keypoints2d :: "'e ndarray group group option"
  Keypoints3d :: "(attr group \<times> 'e ndarray group) option"

definition keys :: "'a group \<Rightarrow> string list" where
  "keys g = map fst g"

text \<open>\<open>g[k]\<close> on a group or an attribute set.\<close>

definition getitem :: "'a group \<Rightarrow> string \<Rightarrow> py_error + 'a" where
  "getitem g k = (case map_of g k of None \<Rightarrow> Inl (KeyError k) | Some v \<Rightarrow> Inr v)"

text \<open>
  The container library reads a name given to \<open>g[k]\<close> or to \<open>k in g.keys()\<close> as a
  path: its components are separated by \<open>/\<close>, empty components and the component
  \<open>.\<close> are skipped, a leading \<open>/\<close> starts from the root, and the name ends at a
  NUL character. \<open>keys\<close> and \<open>getitem\<close> are the members of one group by name, so
  they are what the library does for a name of one component only: a plain name. The
  string of an integer is one (lemma \<open>plain_name_str_of_int\<close>), and so is every name
  stored in a group.
\<close>

definition plain_name :: "string \<Rightarrow> bool" where
  "plain_name s = (s \<noteq> [] \<and> s \<noteq> ''.'' \<and> CHR ''/'' \<notin> set s \<and> CHR 0x00 \<notin> set s)"

text \<open>\<open>self.smc[name]\<close> for a section of the root group.\<close>

definition section_of :: "'e h5file \<Rightarrow> ('e h5file \<Rightarrow> 'a option) \<Rightarrow> string \<Rightarrow> py_error + 'a" where
  "section_of f sel name =
     (if closed f then Inl ClosedFileError
      else (case sel f of None \<Rightarrow> Inl (KeyError name) | Some g \<Rightarrow> Inr g))"

definition root_attr :: "'e h5file \<Rightarrow> string \<Rightarrow> py_error + attr" where
  "root_attr f name = (if closed f then Inl ClosedFileError else getitem (attrs f) name)"

definition close :: "'e h5file \<Rightarrow> 'e h5file" where
  "close f = f\<lparr>closed := True\<rparr>"

section \<open>The reader\<close>

text \<open>
  \<^verbatim>\<open>SMCReader\<close>: the file handle, the calibration cache
  (\<^verbatim>\<open>__calibration_dict__\<close>, \<open>None\<close> until the first full request) and the
  metadata read at construction. A Python dict is the list of its items in insertion
  order; \<open>AList.update\<close> is the assignment \<^verbatim>\<open>d[k] = v\<close>.
\<close>

type_synonym 'e calib = "'e ndarray group"

record 'e reader =
  smc :: "'e h5file"
  calibration_dict :: "'e calib group option"
  actor_id :: attr
  performance_part :: attr
  capture_date :: attr
  actor_info :: "attr group"
  Camera_info :: "attr group"

definition init :: "'e h5file \<Rightarrow> py_error + 'e reader" where
  "init f =
     bnd (root_attr f ''actor_id'') (\<lambda>aid.
     bnd (root_attr f ''performance_part'') (\<lambda>pp.
     bnd (root_attr f ''capture_date'') (\<lambda>cd.
     bnd (root_attr f ''age'') (\<lambda>age.
     bnd (root_attr f ''color'') (\<lambda>color.
     bnd (root_attr f ''gender'') (\<lambda>gender.
     bnd (root_attr f ''height'') (\<lambda>height.
     bnd (root_attr f ''weight'') (\<lambda>weight.
     bnd (section_of f Camera ''Camera'') (\<lambda>cam.
     bnd (getitem (fst cam) ''num_device'') (\<lambda>nd.
     bnd (getitem (fst cam) ''num_frame'') (\<lambda>nf.
     bnd (getitem (fst cam) ''resolution'') (\<lambda>res.
       Inr \<lparr>smc = f, calibration_dict = None, actor_id = aid, performance_part = pp,
            capture_date = cd,
            actor_info = [(''age'', age), (''color'', color), (''gender'', gender),
                          (''height'', height), (''weight'', weight)],
            Camera_info = [(''num_device'', nd), (''num_frame'', nf), (''resolution'', res)]\<rparr>))))))))))))"

definition get_actor_info :: "'e reader \<Rightarrow> attr group" where
  "get_actor_info r = actor_info r"

definition get_Camera_info :: "'e reader \<Rightarrow> attr group" where
  "get_Camera_info r = Camera_info r"

subsection \<open>Calibration\<close>

text \<open>\<^verbatim>\<open>self.smc['Calibration'][ci][mt][()]\<close>: three lookups from the root, then the read.\<close>

definition read_calib :: "'e h5file \<Rightarrow> string \<Rightarrow> string \<Rightarrow> py_error + 'e ndarray" where
  "read_calib f ci mt =
     bnd (section_of f Calibration ''Calibration'') (\<lambda>cal.
     bnd (getitem cal ci) (\<lambda>g. getitem g mt))"

text \<open>
  The inner loop of \<^verbatim>\<open>get_Calibration_all\<close>,
  \<^verbatim>\<open>for mt in ['D', 'K', 'RT']: self.__calibration_dict__[ci][mt] = ...\<close>,
  on the dict built so far. The right-hand side is evaluated first; the dict is
  mutated in place, so what was stored before an exception stays stored.
\<close>

fun calib_inner :: "'e h5file \<Rightarrow> string \<Rightarrow> string list \<Rightarrow> 'e calib group \<Rightarrow> py_error option \<times> 'e calib group" where
  "calib_inner f ci [] d = (None, d)"
| "calib_inner f ci (mt # mts) d =
     (case read_calib f ci mt of
        Inl e \<Rightarrow> (Some e, d)
      | Inr v \<Rightarrow>
          (case map_of d ci of
             None \<Rightarrow> (Some (KeyError ci), d)
           | Some rs \<Rightarrow> calib_inner f ci mts (AList.update ci (AList.update mt v rs) d)))"

text \<open>\<^verbatim>\<open>d.setdefault(ci, dict())\<close>.\<close>

definition setdefault :: "string \<Rightarrow> 'a \<Rightarrow> 'a group \<Rightarrow> 'a group" where
  "setdefault k v d = (case map_of d k of None \<Rightarrow> AList.update k v d | Some _ \<Rightarrow> d)"

fun calib_outer :: "'e h5file \<Rightarrow> string list \<Rightarrow> 'e calib group \<Rightarrow> py_error option \<times> 'e calib group" where
  "calib_outer f [] d = (None, d)"
| "calib_outer f (ci # cis) d =
     (case calib_inner f ci [''D'', ''K'', ''RT''] (setdefault ci [] d) of
        (Some e, d') \<Rightarrow> (Some e, d')
      | (None, d') \<Rightarrow> calib_outer f cis d')"

text \<open>
  \<^verbatim>\<open>get_Calibration_all\<close> returns its result and the reader it leaves behind. The
  cache attribute is set to the empty dict before the loop starts and is filled in
  place.
\<close>

definition get_Calibration_all :: "'e reader \<Rightarrow> (py_error + 'e calib group) \<times> 'e reader" where
  "get_Calibration_all r =
     (case calibration_dict r of
        Some d \<Rightarrow> (Inr d, r)
      | None \<Rightarrow>
          (case section_of (smc r) Calibration ''Calibration'' of
             Inl e \<Rightarrow> (Inl e, r\<lparr>calibration_dict := Some []\<rparr>)
           | Inr cal \<Rightarrow>
               (case calib_outer (smc r) (keys cal) [] of
                  (Some e, d) \<Rightarrow> (Inl e, r\<lparr>calibration_dict := Some d\<rparr>)
                | (None, d) \<Rightarrow> (Inr d, r\<lparr>calibration_dict := Some d\<rparr>))))"

text \<open>
  \<^verbatim>\<open>get_Calibration\<close>: \<^verbatim>\<open>str\<close> of the argument, the membership assertion, then
  the three matrices read into a fresh dict.
\<close>

fun calib_one :: "'e h5file \<Rightarrow> string \<Rightarrow> string list \<Rightarrow> 'e calib \<Rightarrow> py_error + 'e calib" where
  "calib_one f ci [] rs = Inr rs"
| "calib_one f ci (k # ks) rs =
     (case read_calib f ci k of
        Inl e \<Rightarrow> Inl e
      | Inr v \<Rightarrow> calib_one f ci ks (AList.update k v rs))"

definition get_Calibration :: "'e reader \<Rightarrow> py_num \<Rightarrow> py_error + 'e calib" where
  "get_Calibration r Camera_id =
     (let cid = py_str Camera_id in
      bnd (section_of (smc r) Calibration ''Calibration'') (\<lambda>cal.
      bnd (py_assert (cid \<in> set (keys cal)) (''Invalid Camera_id '' @ cid)) (\<lambda>_.
        calib_one (smc r) cid [''D'', ''K'', ''RT''] [])))"

subsection \<open>Images and masks\<close>

text \<open>
  A frame selector is a single number (\<^verbatim>\<open>int\<close> or \<^verbatim>\<open>str\<close>), a list of numbers, or
  \<^verbatim>\<open>None\<close>; the assertion on the selector's type holds for each of them.
\<close>

datatype frame_sel = Single py_num | FrameList "py_num list" | AllFrames

text \<open>
  What \<^verbatim>\<open>get_img\<close> returns: \<^verbatim>\<open>None\<close> (the decoder's answer to bytes it cannot
  decode, passed on for \<^verbatim>\<open>color\<close>), an array of bytes, or an array of objects (what
  \<^verbatim>\<open>np.stack\<close> makes of a list that holds \<^verbatim>\<open>None\<close>, each \<^verbatim>\<open>None\<close> a
  zero-dimensional array).
\<close>

datatype img_value = PyNone | U8Array "u8 ndarray" | ObjArray "u8 option ndarray"

fun is_u8 :: "img_value \<Rightarrow> bool" where
  "is_u8 (U8Array _) = True"
| "is_u8 _ = False"

fun u8_of :: "img_value \<Rightarrow> u8 ndarray" where
  "u8_of (U8Array a) = a"
| "u8_of _ = NDArray [] []"

fun as_obj :: "img_value \<Rightarrow> u8 option ndarray" where
  "as_obj PyNone = NDArray [] [None]"
| "as_obj (U8Array a) = NDArray (shape a) (map Some (data a))"
| "as_obj (ObjArray a) = a"

definition stack_imgs :: "img_value list \<Rightarrow> py_error + img_value" where
  "stack_imgs rs =
     (if list_all is_u8 rs then map_sum id U8Array (np_stack (map u8_of rs))
      else map_sum id ObjArray (np_stack (map as_obj rs)))"

text \<open>
  The three assertions at the head of \<^verbatim>\<open>get_img\<close>, as far as they can fail: the
  camera's group of modalities comes back.
\<close>

definition img_checks :: "'e reader \<Rightarrow> string \<Rightarrow> string \<Rightarrow> py_error + 'e ndarray group group" where
  "img_checks r cid Image_type =
     bnd (section_of (smc r) Camera ''Camera'') (\<lambda>cam.
     bnd (py_assert (cid \<in> set (keys (snd cam))) (''Invalid Camera_id '' @ cid)) (\<lambda>_.
     bnd (getitem (snd cam) cid) (\<lambda>mods.
     bnd (py_assert (Image_type \<in> set (keys mods)) (''Invalid Image_type '' @ Image_type)) (\<lambda>_.
       Inr mods))))"

text \<open>
  The branch for a single frame. The decoder \<^verbatim>\<open>cv2.imdecode(_, IMREAD_COLOR)\<close> is a
  parameter: it raises, returns \<^verbatim>\<open>None\<close>, or returns the decoded array.
  \<^verbatim>\<open>img_color\<close> is bound only for the types \<^verbatim>\<open>color\<close> and \<^verbatim>\<open>mask\<close>.
\<close>

definition img_frame ::
  "('e ndarray \<Rightarrow> py_error + u8 ndarray option) \<Rightarrow> 'e ndarray group group \<Rightarrow> string \<Rightarrow> py_num
    \<Rightarrow> py_error + img_value" where
  "img_frame imdecode mods Image_type Frame_id =
     (let fid = py_str Frame_id in
      bnd (getitem mods Image_type) (\<lambda>frames.
      bnd (py_assert (fid \<in> set (keys frames)) (''Invalid Frame_id '' @ fid)) (\<lambda>_.
        if Image_type \<in> set [''color'', ''mask''] then
          bnd (getitem frames fid) (\<lambda>img_byte.
          bnd (imdecode img_byte) (\<lambda>img_color.
            if Image_type = ''mask'' then
              (case img_color of
                 None \<Rightarrow> Inl (AxisError ''axis 2 is out of bounds'')
               | Some a \<Rightarrow> map_sum id U8Array (np_max_axis2 a))
            else Inr (case img_color of None \<Rightarrow> PyNone | Some a \<Rightarrow> U8Array a)))
        else Inl (UnboundLocalError ''img_color''))))"

text \<open>
  \<^verbatim>\<open>get_img\<close> called with a single frame, as the loop of the batch branch calls it:
  the assertions are made again on every call.
\<close>

definition get_img_single ::
  "('e ndarray \<Rightarrow> py_error + u8 ndarray option) \<Rightarrow> 'e reader \<Rightarrow> py_num \<Rightarrow> string \<Rightarrow> py_num
    \<Rightarrow> py_error + img_value" where
  "get_img_single imdecode r Camera_id Image_type Frame_id =
     bnd (img_checks r (py_str Camera_id) Image_type) (\<lambda>mods.
       img_frame imdecode mods Image_type Frame_id)"

definition get_img ::
  "('e ndarray \<Rightarrow> py_error + u8 ndarray option) \<Rightarrow> 'e reader \<Rightarrow> py_num \<Rightarrow> string \<Rightarrow> frame_sel
    \<Rightarrow> py_error + img_value" where
  "get_img imdecode r Camera_id Image_type Frame_id =
     (let cid = py_str Camera_id in
      bnd (img_checks r cid Image_type) (\<lambda>mods.
        case Frame_id of
          Single f \<Rightarrow> img_frame imdecode mods Image_type f
        | AllFrames \<Rightarrow>
            bnd (getitem mods Image_type) (\<lambda>frames.
            bnd (collect int_of_str (keys frames)) (\<lambda>ids.
            bnd (collect (get_img_single imdecode r (PStr cid) Image_type) (map PInt (sort ids)))
              stack_imgs))
        | FrameList Frame_id_list \<Rightarrow>
            bnd (collect (get_img_single imdecode r (PStr cid) Image_type) Frame_id_list)
              stack_imgs))"

subsection \<open>Audio\<close>

text \<open>
  \<^verbatim>\<open>get_audio\<close> returns \<^verbatim>\<open>None\<close> or the handle of \<^verbatim>\<open>Camera/00/audio\<close>, here what
  is stored there.
\<close>

definition get_audio :: "'e reader \<Rightarrow> py_error + 'e ndarray group option" where
  "get_audio r =
     (case performance_part r of
        AStr p \<Rightarrow>
          (case py_split (CHR ''_'') p of
             [] \<Rightarrow> Inl (IndexError ''list index out of range'')
           | tok # _ \<Rightarrow>
               if CHR ''s'' \<notin> set tok then Inr None
               else
                 bnd (section_of (smc r) Camera ''Camera'') (\<lambda>cam.
                 bnd (getitem (snd cam) ''00'') (\<lambda>mods.
                 bnd (getitem mods ''audio'') (\<lambda>data. Inr (Some data)))))
      | _ \<Rightarrow> Inl (AttributeError ''split''))"

subsection \<open>Keypoints\<close>

text \<open>
  What the keypoint accessors return: \<^verbatim>\<open>None\<close>, the handle of one frame's dataset,
  the handle of a whole group (here its members), or the array \<^verbatim>\<open>np.stack\<close> built.
\<close>

datatype 'e kp_value =
    KpNone
  | KpDataset "'e ndarray"
  | KpGroup "'e ndarray group"
  | KpStack "'e ndarray"

text \<open>
  \<^verbatim>\<open>np.stack\<close> reads each dataset handle as an array. The batch branches only ever
  collect dataset handles (lemmas \<open>kp2d_single_dataset\<close> and \<open>kp3d_single_dataset\<close>),
  so the other case of \<open>kp_array\<close> is never reached.
\<close>

fun kp_array :: "'e kp_value \<Rightarrow> py_error + 'e ndarray" where
  "kp_array (KpDataset a) = Inr a"
| "kp_array (KpStack a) = Inr a"
| "kp_array _ = Inl (TypeError ''not an array'')"

definition stack_kps :: "'e kp_value list \<Rightarrow> py_error + 'e kp_value" where
  "stack_kps rs = bnd (collect kp_array rs) (\<lambda>as. map_sum id KpStack (np_stack as))"

text \<open>
  The head of \<^verbatim>\<open>get_Keypoints2d\<close>: the range assertion on the camera id, then the
  look for the camera's subtree; \<open>None\<close> when the subtree is not there.
\<close>

definition kp2d_checks :: "'e reader \<Rightarrow> string \<Rightarrow> py_error + 'e ndarray group option" where
  "kp2d_checks r cid =
     bnd (py_assert (cid \<in> set (map fmt_02d [18..32])) (''Invalid Camera_id '' @ cid)) (\<lambda>_.
     bnd (section_of (smc r) Keypoints2d ''Keypoints2d'') (\<lambda>kp.
       if cid \<notin> set (keys kp) then Inr None
       else bnd (getitem kp cid) (\<lambda>g. Inr (Some g))))"

definition get_Keypoints2d_single :: "'e reader \<Rightarrow> py_num \<Rightarrow> py_num \<Rightarrow> py_error + 'e kp_value" where
  "get_Keypoints2d_single r Camera_id Frame_id =
     bnd (kp2d_checks r (py_str Camera_id)) (\<lambda>sub.
       case sub of
         None \<Rightarrow> Inr KpNone
       | Some g \<Rightarrow> map_sum id KpDataset (getitem g (py_str Frame_id)))"

definition get_Keypoints2d :: "'e reader \<Rightarrow> py_num \<Rightarrow> frame_sel \<Rightarrow> py_error + 'e kp_value" where
  "get_Keypoints2d r Camera_id Frame_id =
     (let cid = py_str Camera_id in
      bnd (kp2d_checks r cid) (\<lambda>sub.
        case sub of
          None \<Rightarrow> Inr KpNone
        | Some g \<Rightarrow>
            (case Frame_id of
               Single f \<Rightarrow> map_sum id KpDataset (getitem g (py_str f))
             | AllFrames \<Rightarrow> Inr (KpGroup g)
             | FrameList Frame_id_list \<Rightarrow>
                 bnd (collect (get_Keypoints2d_single r (PStr cid)) Frame_id_list) stack_kps)))"

text \<open>
  \<^verbatim>\<open>Frame_id < attrs['num_frame']\<close>: an integer attribute compares as a number, a
  one-element array as its element; a string cannot be compared with an \<^verbatim>\<open>int\<close>, and
  an array of another length has no truth value.
\<close>

fun less_attr :: "int \<Rightarrow> attr \<Rightarrow> py_error + bool" where
  "less_attr i (AInt n) = Inr (i < n)"
| "less_attr i (AInts [n]) = Inr (i < n)"
| "less_attr i (AInts _) = Inl (ValueError ''truth value of an array is ambiguous'')"
| "less_attr i (AStr _) = Inl (TypeError ''< not supported'')"

text \<open>
  The single-frame branch of \<^verbatim>\<open>get_Keypoints3d\<close>. \<^verbatim>\<open>and\<close> evaluates its second
  operand, and so touches the container, only when \<^verbatim>\<open>Frame_id >= 0\<close>.
\<close>

definition get_Keypoints3d_single :: "'e reader \<Rightarrow> py_num \<Rightarrow> py_error + 'e kp_value" where
  "get_Keypoints3d_single r Frame_id =
     bnd (py_int Frame_id) (\<lambda>i.
     bnd (if i \<ge> 0
          then bnd (section_of (smc r) Keypoints3d ''Keypoints3d'') (\<lambda>kp.
               bnd (getitem (fst kp) ''num_frame'') (less_attr i))
          else Inr False) (\<lambda>ok.
     bnd (py_assert ok (''Invalid frame_index '' @ str_of_int i)) (\<lambda>_.
     bnd (section_of (smc r) Keypoints3d ''Keypoints3d'') (\<lambda>kp.
       map_sum id KpDataset (getitem (snd kp) (str_of_int i))))))"

definition get_Keypoints3d :: "'e reader \<Rightarrow> frame_sel \<Rightarrow> py_error + 'e kp_value" where
  "get_Keypoints3d r Frame_id =
     (case Frame_id of
        Single f \<Rightarrow> get_Keypoints3d_single r f
      | AllFrames \<Rightarrow> map_sum id (\<lambda>kp. KpGroup (snd kp)) (section_of (smc r) Keypoints3d ''Keypoints3d'')
      | FrameList Frame_id_list \<Rightarrow>
          bnd (collect (get_Keypoints3d_single r) Frame_id_list) stack_kps)"

section \<open>A small container\<close>

text \<open>
  A container with two calibrated cameras, three colour frames and one mask frame for
  camera \<open>00\<close>, an audio entry, 2D keypoints of four frames for camera \<open>18\<close> and two
  frames of 3D
  keypoints. Every encoded image is six numbers, which \<open>demo_decode\<close> reads as an
  image of one row, two columns and three channels.
\<close>

definition demo_calib :: "nat \<Rightarrow> nat calib" where
  "demo_calib n =
     [(''D'', NDArray [1] [n]), (''K'', NDArray [2] [n, n + 1]), (''RT'', NDArray [1] [n + 2])]"

definition demo_kp2d :: "nat ndarray group" where
  "demo_kp2d =
     [(''0'', NDArray [2] [1, 2]), (''1'', NDArray [2] [3, 4]), (''10'', NDArray [2] [5, 6]),
      (''2'', NDArray [2] [7, 8])]"

definition demo_file :: "nat h5file" where
  "demo_file =
     \<lparr>closed = False,
      attrs = [(''actor_id'', AStr ''0026''), (''performance_part'', AStr ''s1_all''),
               (''capture_date'', AStr ''2022''), (''age'', AInt 30), (''color'', AStr ''c''),
               (''gender'', AStr ''f''), (''height'', AInt 170), (''weight'', AInt 60)],
      Calibration = Some [(''00'', demo_calib 0), (''05'', demo_calib 5)],
      Camera = Some
        ([(''num_device'', AInt 2), (''num_frame'', AInt 3), (''resolution'', AInts [1, 2])],
         [(''00'',
             [(''audio'', [(''audio'', NDArray [2] [7, 8]), (''sample_rate'', NDArray [] [16000])]),
              (''color'',
                 [(''0'', NDArray [6] [1, 2, 3, 4, 5, 6]), (''10'', NDArray [6] [9, 8, 7, 6, 5, 4]),
                  (''2'', NDArray [6] [2, 2, 2, 3, 3, 3])]),
              (''mask'', [(''0'', NDArray [6] [1, 9, 3, 7, 5, 6])])]),
          (''05'', [(''color'', [(''0'', NDArray [6] [0, 0, 0, 0, 0, 0])])])]),
      Keypoints2d = Some [(''18'', demo_kp2d)],
      Keypoints3d = Some
        ([(''num_frame'', AInt 2)], [(''0'', NDArray [3] [1, 2, 3]), (''1'', NDArray [3] [4, 5, 6])])\<rparr>"

definition demo_reader :: "nat reader" where
  "demo_reader =
     \<lparr>smc = demo_file, calibration_dict = None, actor_id = AStr ''0026'',
      performance_part = AStr ''s1_all'', capture_date = AStr ''2022'',
      actor_info = [(''age'', AInt 30), (''color'', AStr ''c''), (''gender'', AStr ''f''),
                    (''height'', AInt 170), (''weight'', AInt 60)],
      Camera_info = [(''num_device'', AInt 2), (''num_frame'', AInt 3),
                     (''resolution'', AInts [1, 2])]\<rparr>"

definition demo_decode :: "nat ndarray \<Rightarrow> py_error + u8 ndarray option" where
  "demo_decode a =
     (if length (data a) = 6 then Inr (Some (NDArray [1, 2, 3] (map of_nat (data a))))
      else Inr None)"

text \<open>
  The same container with a second camera under \<open>Calibration\<close> that has its
  distortion coefficients but neither \<open>K\<close> nor \<open>RT\<close>.
\<close>

definition partial_file :: "nat h5file" where
  "partial_file =
     demo_file\<lparr>Calibration := Some [(''00'', demo_calib 0), (''01'', [(''D'', NDArray [1] [4])])]\<rparr>"

definition partial_reader :: "nat reader" where
  "partial_reader = demo_reader\<lparr>smc := partial_file\<rparr>"

section \<open>Basic facts\<close>

lemma bnd_Inl [simp]: "bnd (Inl e) f = Inl e"
  by (simp add: bnd_def)

lemma bnd_Inr [simp]: "bnd (Inr x) f = f x"
  by (simp add: bnd_def)

lemma py_assert_True [simp]: "c \<Longrightarrow> py_assert c msg = Inr ()"
  by (simp add: py_assert_def)

lemma py_assert_False [simp]: "\<not> c \<Longrightarrow> py_assert c msg = Inl (AssertionError msg)"
  by (simp add: py_assert_def)

lemma section_of_open [simp]:
  "\<not> closed f \<Longrightarrow> sel f = Some g \<Longrightarrow> section_of f sel name = Inr g"
  by (simp add: section_of_def)

lemma section_of_closed [simp]: "closed f \<Longrightarrow> section_of f sel name = Inl ClosedFileError"
  by (simp add: section_of_def)

lemma detection_range: "map fmt_02d [18..32] =
  [''18'', ''19'', ''20'', ''21'', ''22'', ''23'', ''24'', ''25'', ''26'', ''27'', ''28'', ''29'',
   ''30'', ''31'', ''32'']"
  by code_simp

lemma getitem_absent: "k \<notin> set (keys g) \<Longrightarrow> getitem g k = Inl (KeyError k)"
  by (cases "map_of g k") (auto simp: getitem_def keys_def dest: map_of_SomeD intro: rev_image_eqI)

lemma getitem_present: "map_of g k = Some v \<Longrightarrow> getitem g k = Inr v"
  by (simp add: getitem_def)

lemma getitem_in_keys: "k \<in> set (keys g) \<Longrightarrow> \<exists>v. getitem g k = Inr v \<and> map_of g k = Some v"
  by (cases "map_of g k") (auto simp: getitem_def keys_def map_of_eq_None_iff)

lemma map_of_Some_keys: "map_of g k = Some v \<Longrightarrow> k \<in> set (keys g)"
  by (auto simp: keys_def dest: map_of_SomeD intro: rev_image_eqI)

lemma str_of_int_small:
  "str_of_int 0 = ''0''" "str_of_int 1 = ''1''" "str_of_int 2 = ''2''" "str_of_int 10 = ''10''"
  "str_of_int 5 = ''5''" "str_of_int 18 = ''18''"
  by code_simp+

lemma collect_Inr_all: "collect f xs = Inr ys \<Longrightarrow> x \<in> set xs \<Longrightarrow> \<exists>y. f x = Inr y"
  by (induction xs arbitrary: ys) (auto split: sum.splits)

lemma collect_all_Inr: "(\<forall>x\<in>set xs. f x = Inr (g x)) \<Longrightarrow> collect f xs = Inr (map g xs)"
  by (induction xs) auto

lemma py_split_first: "\<exists>ws. py_split sep s = takeWhile (\<lambda>c. c \<noteq> sep) s # ws"
  by (induction s) auto

lemma stack_imgs_Nil: "stack_imgs [] = Inl (ValueError ''need at least one array to stack'')"
  by (simp add: stack_imgs_def np_stack_def)

lemma stack_kps_Nil: "stack_kps [] = Inl (ValueError ''need at least one array to stack'')"
  by (simp add: stack_kps_def np_stack_def)

text \<open>A single-frame call of a keypoint accessor that returns a value returns a dataset.\<close>

lemma kp2d_single_dataset:
  "kp2d_checks r cid = Inr (Some g) \<Longrightarrow> get_Keypoints2d_single r (PStr cid) f = Inr v \<Longrightarrow>
   \<exists>a. v = KpDataset a"
  by (auto simp: get_Keypoints2d_single_def getitem_def split: option.splits)

lemma kp3d_single_dataset: "get_Keypoints3d_single r f = Inr v \<Longrightarrow> \<exists>a. v = KpDataset a"
  by (auto simp: get_Keypoints3d_single_def bnd_def py_assert_def getitem_def
      split: sum.splits option.splits if_splits)

lemma init_demo: "init demo_file = Inr demo_reader"
  by (simp add: init_def demo_file_def demo_reader_def root_attr_def getitem_def)

section \<open>Masks\<close>

lemma chunks_eq:
  "0 < c \<Longrightarrow> length xs = n * c \<Longrightarrow> chunks c xs = map (\<lambda>q. take c (drop (q * c) xs)) [0..<n]"
proof (induction n arbitrary: xs)
  case 0
  then show ?case by simp
next
  case (Suc n)
  then obtain y ys where xs: "xs = y # ys"
    by (cases xs) auto
  from Suc.prems have len: "length (drop c xs) = n * c"
    by simp
  have "chunks c xs = take c xs # chunks c (drop c xs)"
    using Suc.prems(1) by (simp add: xs)
  also have "chunks c (drop c xs) = map (\<lambda>q. take c (drop (q * c) (drop c xs))) [0..<n]"
    by (rule Suc.IH [OF Suc.prems(1) len])
  also have "\<dots> = map (\<lambda>q. take c (drop (Suc q * c) xs)) [0..<n]"
    by (simp add: add.commute)
  finally show ?case
    by (simp add: upt_conv_Cons map_Suc_upt [symmetric] del: upt_Suc)
qed

lemma chunks_one: "chunks (Suc 0) xs = map (\<lambda>x. [x]) xs"
  by (induction xs) auto

lemma block_max_one: "block_max (Suc 0) blk = [max_list blk]"
  by (simp add: block_max_def chunks_one comp_def)

lemma max_list_Max: "xs \<noteq> [] \<Longrightarrow> max_list xs = Max (set xs)"
proof (induction xs)
  case Nil
  then show ?case by simp
next
  case (Cons x xs)
  show ?case
  proof (cases "xs = []")
    case True
    then show ?thesis by (simp add: max_list_def max_def)
  next
    case False
    with Cons.IH have "max_list xs = Max (set xs)" by simp
    moreover have "max_list (x # xs) = max x (max_list xs)"
      by (simp add: max_list_def)
    ultimately show ?thesis using False by simp
  qed
qed

lemma np_max_axis2_3d:
  assumes "shape a = [h, w, c]" "0 < c" "nd_wf a"
  shows "np_max_axis2 a =
    Inr (NDArray [h, w] (map (\<lambda>q. max_list (take c (drop (q * c) (data a)))) [0..<h * w]))"
proof -
  have len: "length (data a) = (h * w) * c"
    using assms by (simp add: nd_wf_def mult.assoc)
  have "concat (map (block_max (Suc 0)) (chunks c (data a))) = map max_list (chunks c (data a))"
    by (induction "chunks c (data a)") (simp_all add: block_max_one)
  then show ?thesis
    using assms by (simp add: np_max_axis2_def chunks_eq [OF assms(2) len] comp_def)
qed

lemma pixel_index: "i < h \<Longrightarrow> j < w \<Longrightarrow> i * w + j < h * (w::nat)"
proof -
  assume "i < h" "j < w"
  then have "i * w + j < Suc i * w" by simp
  also have "\<dots> \<le> h * w" using \<open>i < h\<close> by (intro mult_le_mono1) simp
  finally show ?thesis .
qed

lemma set_take_drop_nth:
  "p + c \<le> length xs \<Longrightarrow> set (take c (drop p xs)) = (\<lambda>k. xs ! (p + k)) ` {..<c}"
proof -
  assume a: "p + c \<le> length xs"
  then have "set (take c (drop p xs)) = nth (drop p xs) ` {0..<c}"
    by (intro nth_image [symmetric]) simp
  also have "\<dots> = (\<lambda>k. xs ! (p + k)) ` {..<c}"
    using a by (intro image_cong) (auto simp: lessThan_atLeast0)
  finally show ?thesis .
qed

lemma img_checks_present:
  "\<not> closed (smc r) \<Longrightarrow> Camera (smc r) = Some (at, cams) \<Longrightarrow> map_of cams cid = Some mods \<Longrightarrow>
   T \<in> set (keys mods) \<Longrightarrow> img_checks r cid T = Inr mods"
  by (simp add: img_checks_def map_of_Some_keys getitem_def)

lemma img_frame_mask:
  assumes "map_of mods ''mask'' = Some frames" "map_of frames (py_str F) = Some b"
    "imdecode b = Inr (Some a)"
  shows "img_frame imdecode mods ''mask'' F = map_sum id U8Array (np_max_axis2 a)"
  using assms by (simp add: img_frame_def Let_def getitem_def map_of_Some_keys)

text \<open>
  Claim C1. For a camera and a frame that are there under \<^verbatim>\<open>Camera/C/mask\<close>, whose
  bytes the decoder reads as a colour image \<open>a\<close> of \<open>h\<close> rows, \<open>w\<close> columns and \<open>c\<close>
  channels, \<^verbatim>\<open>get_img(C, 'mask', F)\<close> returns an array of bytes of shape \<open>h \<times> w\<close>
  (one channel), and its element at \<open>(i, j)\<close> is the maximum over the channels \<open>k\<close> of
  \<open>a[i, j, k]\<close>.
\<close>

theorem mask_is_channel_maximum:
  assumes "\<not> closed (smc r)" "Camera (smc r) = Some (at, cams)"
    and "map_of cams (py_str C) = Some mods" "map_of mods ''mask'' = Some frames"
    and "map_of frames (py_str F) = Some b"
    and "imdecode b = Inr (Some a)" "shape a = [h, w, c]" "0 < c" "nd_wf a"
  shows "\<exists>m. get_img imdecode r C ''mask'' (Single F) = Inr (U8Array m) \<and>
    shape m = [h, w] \<and> nd_wf m \<and>
    (\<forall>i<h. \<forall>j<w. nd_get2 m i j = Max ((\<lambda>k. nd_get3 a i j k) ` {..<c}))"
proof -
  let ?m = "NDArray [h, w] (map (\<lambda>q. max_list (take c (drop (q * c) (data a)))) [0..<h * w])"
  have len: "length (data a) = h * w * c"
    using assms(7,9) by (simp add: nd_wf_def mult.assoc)
  have checks: "img_checks r (py_str C) ''mask'' = Inr mods"
    using assms(1-4) by (intro img_checks_present) (auto intro: map_of_Some_keys)
  have res: "get_img imdecode r C ''mask'' (Single F) = Inr (U8Array ?m)"
    by (simp add: get_img_def Let_def checks img_frame_mask [where imdecode = imdecode, OF assms(4-6)]
        np_max_axis2_3d [OF assms(7-9)])
  have px: "nd_get2 ?m i j = Max ((\<lambda>k. nd_get3 a i j k) ` {..<c})" if "i < h" "j < w" for i j
  proof -
    from that have q: "i * w + j < h * w"
      by (rule pixel_index)
    then have "Suc (i * w + j) * c \<le> h * w * c"
      by (intro mult_le_mono1) simp
    then have bound: "(i * w + j) * c + c \<le> length (data a)"
      by (simp add: len)
    have "nd_get2 ?m i j = max_list (take c (drop ((i * w + j) * c) (data a)))"
      using q by (simp add: nd_get2_def)
    also have "\<dots> = Max (set (take c (drop ((i * w + j) * c) (data a))))"
      using bound assms(8) by (intro max_list_Max) auto
    also have "\<dots> = Max ((\<lambda>k. data a ! ((i * w + j) * c + k)) ` {..<c})"
      by (simp only: set_take_drop_nth [OF bound])
    also have "\<dots> = Max ((\<lambda>k. nd_get3 a i j k) ` {..<c})"
      by (simp add: nd_get3_def assms(7))
    finally show ?thesis .
  qed
  have "nd_wf ?m"
    by (simp add: nd_wf_def)
  with res px show ?thesis
    by (intro exI [of _ ?m]) simp
qed

theorem mask_is_channel_maximum_witness:
  "\<exists>m. get_img demo_decode demo_reader (PStr ''00'') ''mask'' (Single (PInt 0)) = Inr (U8Array m) \<and>
    shape m = [1, 2] \<and> nd_wf m \<and>
    (\<forall>i<1. \<forall>j<2. nd_get2 m i j =
       Max ((\<lambda>k. nd_get3 (NDArray [1, 2, 3] [1, 9, 3, 7, 5, 6]) i j k) ` {..<3}))"
proof -
  have a: "\<not> closed (smc demo_reader)"
    by (simp add: demo_reader_def demo_file_def)
  have b: "Camera (smc demo_reader) = Some (fst (the (Camera demo_file)), snd (the (Camera demo_file)))"
    by (simp add: demo_reader_def demo_file_def)
  have c: "map_of (snd (the (Camera demo_file))) (py_str (PStr ''00'')) =
    Some (the (map_of (snd (the (Camera demo_file))) ''00''))"
    by (simp add: demo_file_def)
  have d: "map_of (the (map_of (snd (the (Camera demo_file))) ''00'')) ''mask'' =
    Some [(''0'', NDArray [6] [1, 9, 3, 7, 5, 6])]"
    by (simp add: demo_file_def)
  have e: "map_of [(''0'', NDArray [6] [1, 9, 3, 7, 5, 6 :: nat])] (py_str (PInt 0)) =
    Some (NDArray [6] [1, 9, 3, 7, 5, 6])"
    by (simp add: str_of_int_small)
  have f: "demo_decode (NDArray [6] [1, 9, 3, 7, 5, 6]) = Inr (Some (NDArray [1, 2, 3] [1, 9, 3, 7, 5, 6]))"
    by (simp add: demo_decode_def)
  have g: "shape (NDArray [1, 2, 3] [1, 9, 3, 7, 5, 6 :: u8]) = [1, 2, 3]"
    by simp
  have h: "(0::nat) < 3"
    by simp
  have i: "nd_wf (NDArray [1, 2, 3] [1, 9, 3, 7, 5, 6 :: u8])"
    by (simp add: nd_wf_def)
  show ?thesis
    by (rule mask_is_channel_maximum [where imdecode = demo_decode, OF a b c d e f g h i])
qed

lemma demo_mask_value:
  "get_img demo_decode demo_reader (PStr ''00'') ''mask'' (Single (PInt 0)) =
     Inr (U8Array (NDArray [1, 2] [9, 7]))"
  by (simp add: get_img_def img_checks_def img_frame_def demo_reader_def demo_file_def keys_def
      getitem_def str_of_int_small demo_decode_def np_max_axis2_def block_max_def max_list_def
      upt_conv_Cons)

section \<open>Batches of frames\<close>

text \<open>\<^verbatim>\<open>int\<close> reads back what \<^verbatim>\<open>str\<close> writes.\<close>

lemma is_digit_digit_char: "d < 10 \<Longrightarrow> is_digit (digit_char d)"
  by (simp add: is_digit_def digit_char_def)

lemma digit_val_digit_char: "d < 10 \<Longrightarrow> digit_val (digit_char d) = d"
  by (simp add: digit_val_def digit_char_def)

lemma is_digit_not_space: "is_digit c \<Longrightarrow> \<not> is_space c"
  by (auto simp: is_digit_def is_space_def)

lemma is_digit_not_sign: "is_digit c \<Longrightarrow> c \<noteq> CHR ''-'' \<and> c \<noteq> CHR ''+''"
  by (auto simp: is_digit_def)

lemma dec_digits_digits: "list_all is_digit (dec_digits n) \<and> dec_digits n \<noteq> []"
  by (induction n rule: dec_digits.induct)
    (subst dec_digits.simps, simp add: is_digit_digit_char, subst dec_digits.simps, simp)

lemma dec_digits_value: "foldl (\<lambda>a c. a * 10 + digit_val c) 0 (dec_digits n) = n"
  by (induction n rule: dec_digits.induct)
    (subst dec_digits.simps, simp add: digit_val_digit_char)

lemma int_body_digits:
  "list_all is_digit xs \<Longrightarrow> xs \<noteq> [] \<Longrightarrow>
   int_body d acc (xs @ ys) = int_body True (foldl (\<lambda>a c. a * 10 + digit_val c) acc xs) ys"
proof (induction xs arbitrary: d acc)
  case Nil
  then show ?case by simp
next
  case (Cons x xs)
  from Cons.prems have x: "is_digit x" and xs: "list_all is_digit xs"
    by simp_all
  have step: "int_body d acc ((x # xs) @ ys) = int_body True (acc * 10 + digit_val x) (xs @ ys)"
    using x by simp
  show ?case
  proof (cases "xs = []")
    case True
    with step show ?thesis by simp
  next
    case False
    from Cons.IH [OF xs False, of True "acc * 10 + digit_val x"] step
    show ?thesis by (simp only: foldl_Cons)
  qed
qed

lemma int_body_dec_digits: "int_body False 0 (dec_digits n) = Some n"
  using int_body_digits [of "dec_digits n" False 0 "[]"] dec_digits_digits [of n]
  by (simp add: dec_digits_value)

lemma strip_no_space: "list_all (\<lambda>c. \<not> is_space c) s \<Longrightarrow> strip s = s"
proof -
  assume a: "list_all (\<lambda>c. \<not> is_space c) s"
  have d: "dropWhile is_space xs = xs" if "list_all (\<lambda>c. \<not> is_space c) xs" for xs
    using that by (cases xs) auto
  from a have "list_all (\<lambda>c. \<not> is_space c) (rev s)"
    by (simp add: list_all_iff)
  with a show ?thesis by (simp add: strip_def d)
qed

lemma dec_digits_no_space: "list_all (\<lambda>c. \<not> is_space c) (dec_digits n)"
  using dec_digits_digits [of n] by (auto simp: list_all_iff is_digit_not_space)

lemma int_of_str_str_of_int: "int_of_str (str_of_int i) = Inr i"
proof (cases "i < 0")
  case True
  have "\<not> is_space (CHR ''-'')" by (simp add: is_space_def)
  then have "strip (CHR ''-'' # dec_digits (nat (- i))) = CHR ''-'' # dec_digits (nat (- i))"
    using dec_digits_no_space by (intro strip_no_space) simp
  with True show ?thesis
    by (simp add: int_of_str_def str_of_int_def int_body_dec_digits)
next
  case False
  obtain c cs where cs: "dec_digits (nat i) = c # cs"
    using dec_digits_digits [of "nat i"] by (cases "dec_digits (nat i)") auto
  with dec_digits_digits [of "nat i"] have "is_digit c" by simp
  then have sign: "c \<noteq> CHR ''-''" "c \<noteq> CHR ''+''"
    using is_digit_not_sign by blast+
  have "strip (dec_digits (nat i)) = dec_digits (nat i)"
    by (rule strip_no_space [OF dec_digits_no_space])
  with False sign show ?thesis
    using int_body_dec_digits [of "nat i"] by (simp add: int_of_str_def str_of_int_def cs)
qed

lemma collect_int_of_str: "collect int_of_str (map str_of_int ids) = Inr ids"
  using collect_all_Inr [of "map str_of_int ids" int_of_str "\<lambda>s. projr (int_of_str s)"]
  by (simp add: int_of_str_str_of_int comp_def)

lemma concat_equal_chunks:
  "\<forall>x\<in>set xss. length x = p \<Longrightarrow> i < length xss \<Longrightarrow>
   take p (drop (i * p) (concat xss)) = xss ! i"
proof (induction xss arbitrary: i)
  case Nil
  then show ?case by simp
next
  case (Cons xs xss)
  show ?case
  proof (cases i)
    case 0
    with Cons.prems show ?thesis by simp
  next
    case (Suc j)
    with Cons.prems Cons.IH [of j] show ?thesis by simp
  qed
qed

lemma stack_u8_arrays:
  assumes "arrs \<noteq> []" "\<forall>a\<in>set arrs. shape a = sh \<and> nd_wf a"
  shows "stack_imgs (map U8Array arrs) = Inr (U8Array (NDArray (length arrs # sh) (concat (map data arrs))))"
proof -
  from assms obtain a rest where arrs: "arrs = a # rest"
    by (cases arrs) auto
  have u8: "list_all is_u8 (map U8Array arrs)"
    by (simp add: list_all_iff)
  have same: "map (u8_of \<circ> U8Array) arrs = arrs"
    by (simp add: comp_def)
  have "np_stack arrs = Inr (NDArray (length arrs # sh) (concat (map data arrs)))"
    using assms(2) by (simp add: np_stack_def arrs list_all_iff)
  then show ?thesis
    by (simp add: stack_imgs_def u8 same)
qed

lemma stack_slice:
  assumes "\<forall>a\<in>set arrs. shape a = sh \<and> nd_wf a" "i < length arrs"
  shows "nd_slice (NDArray (length arrs # sh) (concat (map data arrs))) i = arrs ! i"
proof -
  have "\<forall>x\<in>set (map data arrs). length x = prod_list sh"
    using assms(1) by (auto simp: nd_wf_def)
  from concat_equal_chunks [OF this, of i] assms(2)
  have "take (prod_list sh) (drop (i * prod_list sh) (concat (map data arrs))) = data (arrs ! i)"
    by simp
  moreover have "shape (arrs ! i) = sh"
    using assms by simp
  ultimately show ?thesis
    by (cases "arrs ! i") (simp add: nd_slice_def)
qed

lemma get_img_Single:
  "get_img imdecode r C T (Single f) = get_img_single imdecode r (PStr (py_str C)) T f"
  by (simp add: get_img_def get_img_single_def Let_def)

lemma get_img_FrameList:
  "img_checks r (py_str C) T = Inr mods \<Longrightarrow>
   get_img imdecode r C T (FrameList fs) =
     bnd (collect (\<lambda>f. get_img imdecode r C T (Single f)) fs) stack_imgs"
proof -
  assume checks: "img_checks r (py_str C) T = Inr mods"
  have "(\<lambda>f. get_img imdecode r C T (Single f)) = get_img_single imdecode r (PStr (py_str C)) T"
    by (rule ext) (rule get_img_Single)
  then show ?thesis
    by (simp add: get_img_def [of imdecode r C T "FrameList fs"] Let_def checks)
qed

lemma get_img_AllFrames:
  "img_checks r (py_str C) T = Inr mods \<Longrightarrow> map_of mods T = Some frames \<Longrightarrow>
   keys frames = map str_of_int ids \<Longrightarrow>
   get_img imdecode r C T AllFrames = get_img imdecode r C T (FrameList (map PInt (sort ids)))"
  by (simp add: get_img_def Let_def getitem_def collect_int_of_str)

lemma get_img_Single_checks:
  "get_img imdecode r C T (Single f) = Inr v \<Longrightarrow> \<exists>mods. img_checks r (py_str C) T = Inr mods"
  by (cases "img_checks r (py_str C) T") (simp_all add: get_img_def Let_def)

lemma batch_of_list:
  assumes "fs \<noteq> []"
    and "\<forall>f\<in>set fs. \<exists>a. get_img imdecode r C T (Single f) = Inr (U8Array a) \<and> shape a = sh \<and> nd_wf a"
  shows "\<exists>s. get_img imdecode r C T (FrameList fs) = Inr (U8Array s) \<and> shape s = length fs # sh \<and>
    (\<forall>i<length fs. get_img imdecode r C T (Single (fs ! i)) = Inr (U8Array (nd_slice s i)))"
proof -
  let ?g = "\<lambda>f. u8_of (projr (get_img imdecode r C T (Single f)))"
  let ?arrs = "map ?g fs"
  let ?s = "NDArray (length ?arrs # sh) (concat (map data ?arrs))"
  have single: "get_img imdecode r C T (Single f) = Inr (U8Array (?g f)) \<and> shape (?g f) = sh \<and> nd_wf (?g f)"
    if "f \<in> set fs" for f
    using assms(2) that by fastforce
  from assms(1) obtain f0 where "f0 \<in> set fs"
    by (cases fs) auto
  with single get_img_Single_checks obtain mods where checks: "img_checks r (py_str C) T = Inr mods"
    by blast
  have "collect (\<lambda>f. get_img imdecode r C T (Single f)) fs = Inr (map (\<lambda>f. U8Array (?g f)) fs)"
    using single by (intro collect_all_Inr) simp
  then have col: "collect (\<lambda>f. get_img imdecode r C T (Single f)) fs = Inr (map U8Array ?arrs)"
    by (simp add: comp_def)
  have ok: "\<forall>a\<in>set ?arrs. shape a = sh \<and> nd_wf a"
    using single by auto
  have ne: "?arrs \<noteq> []"
    using assms(1) by simp
  have res: "get_img imdecode r C T (FrameList fs) = Inr (U8Array ?s)"
    by (simp only: get_img_FrameList [OF checks] col bnd_Inr stack_u8_arrays [OF ne ok])
  have "get_img imdecode r C T (Single (fs ! i)) = Inr (U8Array (nd_slice ?s i))" if "i < length fs" for i
  proof -
    from that have "nd_slice ?s i = ?arrs ! i"
      by (intro stack_slice [OF ok]) simp
    with that single [of "fs ! i"] show ?thesis by simp
  qed
  with res show ?thesis
    by (intro exI [of _ ?s]) simp
qed


lemma demo_color_frames:
  "get_img demo_decode demo_reader (PStr ''00'') ''color'' (Single (PInt 0)) =
     Inr (U8Array (NDArray [1, 2, 3] [1, 2, 3, 4, 5, 6]))"
  "get_img demo_decode demo_reader (PStr ''00'') ''color'' (Single (PInt 10)) =
     Inr (U8Array (NDArray [1, 2, 3] [9, 8, 7, 6, 5, 4]))"
  "get_img demo_decode demo_reader (PStr ''00'') ''color'' (Single (PInt 2)) =
     Inr (U8Array (NDArray [1, 2, 3] [2, 2, 2, 3, 3, 3]))"
  by (simp_all add: get_img_def img_checks_def img_frame_def demo_reader_def demo_file_def keys_def
      getitem_def str_of_int_small demo_decode_def)


section \<open>The calibration cache\<close>

lemma get_Calibration_all_caches:
  "get_Calibration_all r = (Inr m, r') \<Longrightarrow> calibration_dict r' = Some m"
  by (auto simp: get_Calibration_all_def split: option.splits sum.splits prod.splits)

text \<open>
  Claim C3. After a call of \<^verbatim>\<open>get_Calibration_all\<close> that returned a mapping, the
  next call returns the same mapping and leaves the reader as it is, and it does so
  whatever the container is by then, in particular when the container has been closed
  in between: the second call does not read the container.
\<close>

theorem calibration_all_cached:
  "get_Calibration_all r = (Inr m, r') \<Longrightarrow>
   get_Calibration_all r' = (Inr m, r') \<and>
   (\<forall>f. get_Calibration_all (r'\<lparr>smc := f\<rparr>) = (Inr m, r'\<lparr>smc := f\<rparr>)) \<and>
   get_Calibration_all (r'\<lparr>smc := close (smc r')\<rparr>) = (Inr m, r'\<lparr>smc := close (smc r')\<rparr>)"
  by (drule get_Calibration_all_caches) (simp add: get_Calibration_all_def)

theorem calibration_all_cached_witness:
  "fst (get_Calibration_all demo_reader) = Inr [(''00'', demo_calib 0), (''05'', demo_calib 5)] \<and>
   fst (get_Calibration_all (snd (get_Calibration_all demo_reader)\<lparr>smc := close demo_file\<rparr>)) =
     Inr [(''00'', demo_calib 0), (''05'', demo_calib 5)]"
proof -
  have a: "get_Calibration_all demo_reader =
    (Inr [(''00'', demo_calib 0), (''05'', demo_calib 5)],
     demo_reader\<lparr>calibration_dict := Some [(''00'', demo_calib 0), (''05'', demo_calib 5)]\<rparr>)"
    by (simp add: get_Calibration_all_def demo_reader_def demo_file_def keys_def setdefault_def
        read_calib_def getitem_def demo_calib_def)
  from calibration_all_cached [OF a] show ?thesis
    by (simp add: a)
qed

text \<open>
  Claim C4. The cache is meant to be empty or complete. On \<open>partial_file\<close>, whose
  second camera has no \<open>K\<close>, the first call of \<^verbatim>\<open>get_Calibration_all\<close> raises
  \<^verbatim>\<open>KeyError\<close> and leaves the cache holding the mapping built so far; the second
  call returns that partial mapping as its result.
\<close>

theorem calibration_cache_partial:
  "fst (get_Calibration_all partial_reader) = Inl (KeyError ''K'') \<and>
   calibration_dict (snd (get_Calibration_all partial_reader)) =
     Some [(''00'', demo_calib 0), (''01'', [(''D'', NDArray [1] [4])])] \<and>
   fst (get_Calibration_all (snd (get_Calibration_all partial_reader))) =
     Inr [(''00'', demo_calib 0), (''01'', [(''D'', NDArray [1] [4])])]"
proof -
  have a: "get_Calibration_all partial_reader =
    (Inl (KeyError ''K''),
     partial_reader\<lparr>calibration_dict := Some [(''00'', demo_calib 0), (''01'', [(''D'', NDArray [1] [4])])]\<rparr>)"
    by (simp add: get_Calibration_all_def partial_reader_def partial_file_def demo_reader_def
        demo_file_def keys_def setdefault_def read_calib_def getitem_def demo_calib_def)
  show ?thesis
    by (simp add: a) (simp add: get_Calibration_all_def)
qed

section \<open>Calibration of one camera\<close>

lemma read_calib_open:
  "\<not> closed f \<Longrightarrow> Calibration f = Some cal \<Longrightarrow>
   read_calib f ci mt = bnd (getitem cal ci) (\<lambda>g. getitem g mt)"
  by (simp add: read_calib_def)

lemma read_calib_no_assert:
  "\<not> closed f \<Longrightarrow> Calibration f = Some cal \<Longrightarrow> read_calib f ci mt \<noteq> Inl (AssertionError msg)"
  by (auto simp: read_calib_open getitem_def bnd_def split: option.splits sum.splits)

lemma calib_one_no_assert:
  "\<not> closed f \<Longrightarrow> Calibration f = Some cal \<Longrightarrow> calib_one f ci ks rs \<noteq> Inl (AssertionError msg)"
proof (induction ks arbitrary: rs)
  case Nil
  then show ?case by simp
next
  case (Cons k ks)
  then show ?case
    using read_calib_no_assert [of f cal ci k msg]
    by (cases "read_calib f ci k") auto
qed

lemma calib_one_triple:
  "calib_one f ci [''D'', ''K'', ''RT''] [] = Inr rs \<longleftrightarrow>
   (\<exists>vd vk vrt. read_calib f ci ''D'' = Inr vd \<and> read_calib f ci ''K'' = Inr vk \<and>
      read_calib f ci ''RT'' = Inr vrt \<and> rs = [(''D'', vd), (''K'', vk), (''RT'', vrt)])"
  by (auto split: sum.splits)

lemma calib_inner_success:
  assumes "calib_inner f ci [''D'', ''K'', ''RT''] d = (None, d')"
    and "map_of d ci = Some rs0"
    and "rs0 = [] \<or> calib_one f ci [''D'', ''K'', ''RT''] [] = Inr rs0"
  shows "\<exists>rs. calib_one f ci [''D'', ''K'', ''RT''] [] = Inr rs \<and> map_of d' = (map_of d)(ci \<mapsto> rs)"
  using assms
  by (auto simp: update_conv' calib_one_triple split: sum.splits option.splits if_splits)

lemma map_of_setdefault:
  "map_of (setdefault k v d) = (if map_of d k = None then (map_of d)(k \<mapsto> v) else map_of d)"
  by (auto simp: setdefault_def update_conv' split: option.splits)

lemma calib_outer_invariant:
  assumes "calib_outer f cis d = (None, d')"
    and "\<forall>ci rs. map_of d ci = Some rs \<longrightarrow> calib_one f ci [''D'', ''K'', ''RT''] [] = Inr rs"
  shows "(\<forall>ci rs. map_of d' ci = Some rs \<longrightarrow> calib_one f ci [''D'', ''K'', ''RT''] [] = Inr rs) \<and>
    dom (map_of d) \<union> set cis \<subseteq> dom (map_of d')"
  using assms
proof (induction cis arbitrary: d)
  case Nil
  then show ?case by simp
next
  case (Cons ci cis)
  let ?d1 = "setdefault ci [] d"
  obtain e d2 where inner: "calib_inner f ci [''D'', ''K'', ''RT''] ?d1 = (e, d2)"
    by (cases "calib_inner f ci [''D'', ''K'', ''RT''] ?d1") auto
  with Cons.prems(1) have e: "e = None" and rest: "calib_outer f cis d2 = (None, d')"
    by (auto split: option.splits)
  obtain rs0 where rs0: "map_of ?d1 ci = Some rs0"
    and rs0_ok: "rs0 = [] \<or> calib_one f ci [''D'', ''K'', ''RT''] [] = Inr rs0"
    using Cons.prems(2) by (cases "map_of d ci") (auto simp: map_of_setdefault)
  from calib_inner_success [OF inner [unfolded e] rs0 rs0_ok]
  obtain rs where rs: "calib_one f ci [''D'', ''K'', ''RT''] [] = Inr rs"
    and d2: "map_of d2 = (map_of ?d1)(ci \<mapsto> rs)"
    by blast
  have inv2: "\<forall>c r. map_of d2 c = Some r \<longrightarrow> calib_one f c [''D'', ''K'', ''RT''] [] = Inr r"
    using Cons.prems(2) rs by (auto simp: d2 map_of_setdefault split: if_splits)
  from Cons.IH [OF rest inv2]
  have inv': "\<forall>ci rs. map_of d' ci = Some rs \<longrightarrow> calib_one f ci [''D'', ''K'', ''RT''] [] = Inr rs"
    and sub: "dom (map_of d2) \<union> set cis \<subseteq> dom (map_of d')"
    by blast+
  have "dom (map_of d) \<union> {ci} \<subseteq> dom (map_of d2)"
    by (auto simp: d2 map_of_setdefault split: if_splits)
  moreover have "set (ci # cis) = {ci} \<union> set cis"
    by simp
  ultimately have "dom (map_of d) \<union> set (ci # cis) \<subseteq> dom (map_of d')"
    using sub by blast
  with inv' show ?case by blast
qed

lemma get_Calibration_all_smc: "get_Calibration_all r = (res, r') \<Longrightarrow> smc r' = smc r"
  by (auto simp: get_Calibration_all_def split: option.splits sum.splits prod.splits)

lemma get_Calibration_all_complete:
  assumes "\<not> closed (smc r)" "Calibration (smc r) = Some cal" "calibration_dict r = None"
    and "get_Calibration_all r = (Inr m, r')"
  shows "(\<forall>ci rs. map_of m ci = Some rs \<longrightarrow> calib_one (smc r) ci [''D'', ''K'', ''RT''] [] = Inr rs) \<and>
    set (keys cal) \<subseteq> dom (map_of m)"
proof -
  from assms have "calib_outer (smc r) (keys cal) [] = (None, m)"
    by (auto simp: get_Calibration_all_def split: prod.splits option.splits)
  from calib_outer_invariant [OF this] show ?thesis by simp
qed

lemma get_Calibration_open:
  "\<not> closed (smc r) \<Longrightarrow> Calibration (smc r) = Some cal \<Longrightarrow>
   get_Calibration r C =
     (if py_str C \<in> set (keys cal) then calib_one (smc r) (py_str C) [''D'', ''K'', ''RT''] []
      else Inl (AssertionError (''Invalid Camera_id '' @ py_str C)))"
  by (simp add: get_Calibration_def Let_def)

lemma str_of_int_digit: "0 \<le> n \<Longrightarrow> n \<le> 9 \<Longrightarrow> str_of_int n = [digit_char (nat n)]"
  by (simp add: str_of_int_def dec_digits.simps)

lemma is_digit_plain: "is_digit c \<Longrightarrow> c \<noteq> CHR ''/'' \<and> c \<noteq> CHR ''.'' \<and> c \<noteq> CHR 0x00"
  by (auto simp: is_digit_def)

lemma dec_digits_plain: "plain_name (dec_digits n)"
  using dec_digits_digits [of n] is_digit_plain
  by (cases "dec_digits n") (auto simp: plain_name_def list_all_iff)

lemma plain_name_str_of_int: "plain_name (str_of_int i)"
  using dec_digits_plain [of "nat i"] dec_digits_plain [of "nat (- i)"]
  by (auto simp: str_of_int_def plain_name_def)




section \<open>3D keypoints: the bounds check\<close>

lemma kp3d_single_assert:
  assumes "\<not> closed (smc r)" "Keypoints3d (smc r) = Some (at, kp)"
    "map_of at ''num_frame'' = Some (AInt n)" "py_int f = Inr i"
  shows "get_Keypoints3d_single r f =
    (if i < 0 \<or> n \<le> i then Inl (AssertionError (''Invalid frame_index '' @ str_of_int i))
     else map_sum id KpDataset (getitem kp (str_of_int i)))"
  using assms by (simp add: get_Keypoints3d_single_def getitem_def)

text \<open>
  Claim C6, amended. On an open container whose \<open>Keypoints3d\<close> section declares
  \<open>num_frame = n\<close>: a single index \<open>i\<close> fails with the frame-index assertion exactly
  when \<open>i < 0\<close> or \<open>i \<ge> n\<close>, and an index inside the bounds whose key is there returns
  that frame's dataset; an explicit list fails as soon as one of its elements is out of
  bounds, because every element goes through the single-index branch; only the omitted
  selector is not validated: it returns the whole section.
\<close>

theorem kp3d_bounds_validation:
  "\<not> closed (smc r) \<Longrightarrow> Keypoints3d (smc r) = Some (at, kp) \<Longrightarrow>
   map_of at ''num_frame'' = Some (AInt n) \<Longrightarrow>
   (py_int f = Inr i \<longrightarrow>
      (get_Keypoints3d r (Single f) = Inl (AssertionError (''Invalid frame_index '' @ str_of_int i))
        \<longleftrightarrow> i < 0 \<or> n \<le> i)) \<and>
   (py_int f = Inr i \<and> 0 \<le> i \<and> i < n \<and> map_of kp (str_of_int i) = Some d \<longrightarrow>
      get_Keypoints3d r (Single f) = Inr (KpDataset d)) \<and>
   (f \<in> set fs \<and> py_int f = Inr i \<and> (i < 0 \<or> n \<le> i) \<longrightarrow>
      (\<exists>e. get_Keypoints3d r (FrameList fs) = Inl e)) \<and>
   get_Keypoints3d r AllFrames = Inr (KpGroup kp)"
proof (intro conjI impI)
  assume h: "\<not> closed (smc r)" "Keypoints3d (smc r) = Some (at, kp)"
    "map_of at ''num_frame'' = Some (AInt n)"
  {
    assume i: "py_int f = Inr i"
    show "get_Keypoints3d r (Single f) = Inl (AssertionError (''Invalid frame_index '' @ str_of_int i))
        \<longleftrightarrow> i < 0 \<or> n \<le> i"
      by (cases "map_of kp (str_of_int i)")
        (simp_all add: get_Keypoints3d_def kp3d_single_assert [OF h i] getitem_def)
  }
  {
    assume "py_int f = Inr i \<and> 0 \<le> i \<and> i < n \<and> map_of kp (str_of_int i) = Some d"
    then show "get_Keypoints3d r (Single f) = Inr (KpDataset d)"
      by (simp add: get_Keypoints3d_def kp3d_single_assert [OF h] getitem_def)
  }
  {
    assume a: "f \<in> set fs \<and> py_int f = Inr i \<and> (i < 0 \<or> n \<le> i)"
    then have bad: "get_Keypoints3d_single r f =
        Inl (AssertionError (''Invalid frame_index '' @ str_of_int i))"
      using kp3d_single_assert [OF h, of f i] by auto
    show "\<exists>e. get_Keypoints3d r (FrameList fs) = Inl e"
    proof (cases "collect (get_Keypoints3d_single r) fs")
      case (Inl e)
      then show ?thesis by (simp add: get_Keypoints3d_def)
    next
      case (Inr ys)
      from collect_Inr_all [OF Inr, of f] a bad show ?thesis by simp
    qed
  }
  show "get_Keypoints3d r AllFrames = Inr (KpGroup kp)"
    using h by (simp add: get_Keypoints3d_def)
qed

theorem kp3d_bounds_validation_witness:
  "get_Keypoints3d demo_reader (Single (PInt 2)) = Inl (AssertionError ''Invalid frame_index 2'') \<and>
   get_Keypoints3d demo_reader (Single (PInt 1)) = Inr (KpDataset (NDArray [3] [4, 5, 6])) \<and>
   (\<exists>e. get_Keypoints3d demo_reader (FrameList [PInt 0, PInt 2]) = Inl e) \<and>
   get_Keypoints3d demo_reader AllFrames =
     Inr (KpGroup [(''0'', NDArray [3] [1, 2, 3]), (''1'', NDArray [3] [4, 5, 6])])"
proof -
  have a: "\<not> closed (smc demo_reader)"
    by (simp add: demo_reader_def demo_file_def)
  have b: "Keypoints3d (smc demo_reader) =
    Some ([(''num_frame'', AInt 2)], [(''0'', NDArray [3] [1, 2, 3]), (''1'', NDArray [3] [4, 5, 6])])"
    by (simp add: demo_reader_def demo_file_def)
  have c: "map_of [(''num_frame'', AInt 2)] ''num_frame'' = Some (AInt 2)"
    by simp
  note t = kp3d_bounds_validation [OF a b c]
  have "get_Keypoints3d demo_reader (Single (PInt 2)) = Inl (AssertionError ''Invalid frame_index 2'')"
    using t [of "PInt 2" 2] by (simp add: str_of_int_small)
  moreover have "get_Keypoints3d demo_reader (Single (PInt 1)) = Inr (KpDataset (NDArray [3] [4, 5, 6]))"
    using t [of "PInt 1" 1 "NDArray [3] [4, 5, 6]"] by (simp add: str_of_int_small)
  moreover have "\<exists>e. get_Keypoints3d demo_reader (FrameList [PInt 0, PInt 2]) = Inl e"
    using t [of "PInt 2" 2 _ "[PInt 0, PInt 2]"] by simp
  moreover have "get_Keypoints3d demo_reader AllFrames =
     Inr (KpGroup [(''0'', NDArray [3] [1, 2, 3]), (''1'', NDArray [3] [4, 5, 6])])"
    using t by simp
  ultimately show ?thesis by simp
qed

text \<open>
  The claim as it stands says that the explicit-list path applies no bounds validation.
  With \<open>num_frame = 2\<close> the list \<open>[2]\<close> fails with the frame-index assertion.
\<close>

theorem kp3d_list_path_validates:
  "get_Keypoints3d demo_reader (FrameList [PInt 2]) = Inl (AssertionError ''Invalid frame_index 2'')"
  by (simp add: get_Keypoints3d_def get_Keypoints3d_single_def demo_reader_def demo_file_def
      getitem_def str_of_int_small)

section \<open>2D keypoints: the omitted selector\<close>

text \<open>
  Claim C7. With the selector omitted \<^verbatim>\<open>get_Keypoints2d\<close> returns the camera's group
  as it is stored, its members under their names in the order of the names
  (\<open>0, 1, 10, 2\<close>), not the frames stacked in ascending numeric order; the explicit
  list \<open>[0, 1, 2, 10]\<close> does return the stack.
\<close>

theorem kp2d_omitted_returns_group:
  "get_Keypoints2d demo_reader (PInt 18) AllFrames = Inr (KpGroup demo_kp2d) \<and>
   map fst demo_kp2d = [''0'', ''1'', ''10'', ''2''] \<and>
   get_Keypoints2d demo_reader (PInt 18) (FrameList [PInt 0, PInt 1, PInt 2, PInt 10]) =
     Inr (KpStack (NDArray [4, 2] [1, 2, 3, 4, 7, 8, 5, 6]))"
  unfolding get_Keypoints2d_def get_Keypoints2d_single_def kp2d_checks_def detection_range Let_def
  by (simp add: demo_reader_def demo_file_def demo_kp2d_def getitem_def keys_def str_of_int_small
      stack_kps_def np_stack_def)

section \<open>2D keypoints: the camera id\<close>

text \<open>
  Claim C8. \<^verbatim>\<open>get_Keypoints2d\<close> fails with the invalid-camera assertion for every
  camera id whose string form is not one of \<open>18\<close> to \<open>32\<close>, whatever the frame selector;
  for an id inside the range whose subtree is not under \<open>Keypoints2d\<close> of an open
  container it returns \<^verbatim>\<open>None\<close>, the ``missing'' result, and raises nothing.
\<close>

theorem kp2d_camera_validation:
  "(py_str C \<notin> set [''18'', ''19'', ''20'', ''21'', ''22'', ''23'', ''24'', ''25'', ''26'', ''27'',
        ''28'', ''29'', ''30'', ''31'', ''32''] \<longrightarrow>
      get_Keypoints2d r C sel = Inl (AssertionError (''Invalid Camera_id '' @ py_str C))) \<and>
   (py_str C \<in> set [''18'', ''19'', ''20'', ''21'', ''22'', ''23'', ''24'', ''25'', ''26'', ''27'',
        ''28'', ''29'', ''30'', ''31'', ''32''] \<and>
    \<not> closed (smc r) \<and> Keypoints2d (smc r) = Some kp \<and> py_str C \<notin> set (keys kp) \<longrightarrow>
      get_Keypoints2d r C sel = Inr KpNone)"
  unfolding get_Keypoints2d_def kp2d_checks_def detection_range Let_def
  by (simp del: set_simps)

theorem kp2d_camera_validation_witness:
  "get_Keypoints2d demo_reader (PInt 17) AllFrames = Inl (AssertionError ''Invalid Camera_id 17'') \<and>
   get_Keypoints2d demo_reader (PStr ''19'') (Single (PInt 0)) = Inr KpNone"
proof -
  have s17: "str_of_int 17 = ''17''" by code_simp
  have a: "py_str (PInt 17) \<notin> set [''18'', ''19'', ''20'', ''21'', ''22'', ''23'', ''24'', ''25'', ''26'', ''27'',
        ''28'', ''29'', ''30'', ''31'', ''32'']"
    by (simp add: s17)
  have b: "py_str (PStr ''19'') \<in> set [''18'', ''19'', ''20'', ''21'', ''22'', ''23'', ''24'', ''25'', ''26'', ''27'',
        ''28'', ''29'', ''30'', ''31'', ''32''] \<and>
    \<not> closed (smc demo_reader) \<and>
    Keypoints2d (smc demo_reader) = Some [(''18'', demo_kp2d)] \<and>
    py_str (PStr ''19'') \<notin> set (keys [(''18'', demo_kp2d)])"
    by (simp add: demo_reader_def demo_file_def keys_def)
  from a b kp2d_camera_validation [of "PInt 17" demo_reader AllFrames]
    kp2d_camera_validation [of "PStr ''19''" demo_reader "Single (PInt 0)" "[(''18'', demo_kp2d)]"]
  show ?thesis by (simp add: s17)
qed

section \<open>Audio\<close>

text \<open>
  Claim C9. \<^verbatim>\<open>get_audio\<close> looks at the performance-part label first: when the
  label's first underscore-delimited token has no \<open>s\<close> it returns \<^verbatim>\<open>None\<close>
  whatever the container is (closed or without an audio entry), so without reading it;
  otherwise it returns what is stored at \<^verbatim>\<open>Camera/00/audio\<close>, unchanged.
\<close>

theorem audio_naming_convention:
  "performance_part r = AStr p \<Longrightarrow>
   (CHR ''s'' \<notin> set (takeWhile (\<lambda>c. c \<noteq> CHR ''_'') p) \<longrightarrow>
      (\<forall>f. get_audio (r\<lparr>smc := f\<rparr>) = Inr None)) \<and>
   (CHR ''s'' \<in> set (takeWhile (\<lambda>c. c \<noteq> CHR ''_'') p) \<and> \<not> closed (smc r) \<and>
    Camera (smc r) = Some (a, cams) \<and> map_of cams ''00'' = Some mods \<and>
    map_of mods ''audio'' = Some d \<longrightarrow>
      get_audio r = Inr (Some d))"
proof -
  assume pp: "performance_part r = AStr p"
  obtain ws where sp: "py_split (CHR ''_'') p = takeWhile (\<lambda>c. c \<noteq> CHR ''_'') p # ws"
    using py_split_first by blast
  show ?thesis
    by (simp add: get_audio_def pp sp getitem_def)
qed

theorem audio_naming_convention_witness:
  "get_audio (demo_reader\<lparr>performance_part := AStr ''e0_all'', smc := close demo_file\<rparr>) = Inr None \<and>
   get_audio demo_reader =
     Inr (Some [(''audio'', NDArray [2] [7, 8]), (''sample_rate'', NDArray [] [16000])])"
proof -
  have a: "performance_part (demo_reader\<lparr>performance_part := AStr ''e0_all''\<rparr>) = AStr ''e0_all''"
    by simp
  have b: "CHR ''s'' \<notin> set (takeWhile (\<lambda>c. c \<noteq> CHR ''_'') ''e0_all'')"
    by simp
  have c: "performance_part demo_reader = AStr ''s1_all''"
    by (simp add: demo_reader_def)
  have d: "CHR ''s'' \<in> set (takeWhile (\<lambda>c. c \<noteq> CHR ''_'') ''s1_all'') \<and> \<not> closed (smc demo_reader) \<and>
    Camera (smc demo_reader) = Some (fst (the (Camera demo_file)), snd (the (Camera demo_file))) \<and>
    map_of (snd (the (Camera demo_file))) ''00'' = Some (the (map_of (snd (the (Camera demo_file))) ''00'')) \<and>
    map_of (the (map_of (snd (the (Camera demo_file))) ''00'')) ''audio'' =
      Some [(''audio'', NDArray [2] [7, 8]), (''sample_rate'', NDArray [] [16000])]"
    by (simp add: demo_reader_def demo_file_def)
  from audio_naming_convention [OF a] b
  have "get_audio (demo_reader\<lparr>performance_part := AStr ''e0_all''\<rparr>\<lparr>smc := close demo_file\<rparr>) = Inr None"
    by blast
  moreover from audio_naming_convention [OF c] d
  have "get_audio demo_reader =
     Inr (Some [(''audio'', NDArray [2] [7, 8]), (''sample_rate'', NDArray [] [16000])])"
    by blast
  ultimately show ?thesis by simp
qed

section \<open>The empty list of frames\<close>

text \<open>
  Claim C10. With the empty list as frame selector, \<^verbatim>\<open>get_img\<close> for a camera and an
  image type that are there, \<^verbatim>\<open>get_Keypoints2d\<close> for a camera in range whose subtree
  is there, and \<^verbatim>\<open>get_Keypoints3d\<close> do not return an empty batch: \<^verbatim>\<open>np.stack\<close>
  raises on the empty list of results.
\<close>

theorem empty_list_stack_raises:
  "(\<not> closed (smc r) \<and> Camera (smc r) = Some (a, cams) \<and> map_of cams (py_str C) = Some mods \<and>
    T \<in> set (keys mods) \<longrightarrow>
      get_img imdecode r C T (FrameList []) = Inl (ValueError ''need at least one array to stack'')) \<and>
   (py_str C \<in> set [''18'', ''19'', ''20'', ''21'', ''22'', ''23'', ''24'', ''25'', ''26'', ''27'',
        ''28'', ''29'', ''30'', ''31'', ''32''] \<and>
    \<not> closed (smc r) \<and> Keypoints2d (smc r) = Some kp \<and> map_of kp (py_str C) = Some g \<longrightarrow>
      get_Keypoints2d r C (FrameList []) = Inl (ValueError ''need at least one array to stack'')) \<and>
   get_Keypoints3d r (FrameList []) = Inl (ValueError ''need at least one array to stack'')"
proof (intro conjI impI)
  assume h: "\<not> closed (smc r) \<and> Camera (smc r) = Some (a, cams) \<and> map_of cams (py_str C) = Some mods \<and>
    T \<in> set (keys mods)"
  then have "py_str C \<in> set (keys cams)"
    by (auto simp: keys_def dest: map_of_SomeD intro: rev_image_eqI)
  with h show "get_img imdecode r C T (FrameList []) = Inl (ValueError ''need at least one array to stack'')"
    by (simp add: get_img_def img_checks_def getitem_def stack_imgs_Nil)
next
  assume h: "py_str C \<in> set [''18'', ''19'', ''20'', ''21'', ''22'', ''23'', ''24'', ''25'', ''26'', ''27'',
        ''28'', ''29'', ''30'', ''31'', ''32''] \<and>
    \<not> closed (smc r) \<and> Keypoints2d (smc r) = Some kp \<and> map_of kp (py_str C) = Some g"
  then have "py_str C \<in> set (keys kp)"
    by (auto simp: keys_def dest: map_of_SomeD intro: rev_image_eqI)
  with h show "get_Keypoints2d r C (FrameList []) = Inl (ValueError ''need at least one array to stack'')"
    unfolding get_Keypoints2d_def kp2d_checks_def detection_range Let_def
    by (simp add: getitem_def stack_kps_Nil del: set_simps)
next
  show "get_Keypoints3d r (FrameList []) = Inl (ValueError ''need at least one array to stack'')"
    by (simp add: get_Keypoints3d_def stack_kps_Nil)
qed

theorem empty_list_stack_raises_witness:
  "get_img demo_decode demo_reader (PStr ''00'') ''color'' (FrameList []) =
     Inl (ValueError ''need at least one array to stack'') \<and>
   get_Keypoints2d demo_reader (PInt 18) (FrameList []) =
     Inl (ValueError ''need at least one array to stack'') \<and>
   get_Keypoints3d demo_reader (FrameList []) =
     Inl (ValueError ''need at least one array to stack'')"
proof -
  have s18: "str_of_int 18 = ''18''" by code_simp
  have a: "\<not> closed (smc demo_reader) \<and>
    Camera (smc demo_reader) = Some (fst (the (Camera demo_file)), snd (the (Camera demo_file))) \<and>
    map_of (snd (the (Camera demo_file))) (py_str (PStr ''00'')) =
      Some (the (map_of (snd (the (Camera demo_file))) ''00'')) \<and>
    ''color'' \<in> set (keys (the (map_of (snd (the (Camera demo_file))) ''00'')))"
    by (simp add: demo_reader_def demo_file_def keys_def)
  have b: "py_str (PInt 18) \<in> set [''18'', ''19'', ''20'', ''21'', ''22'', ''23'', ''24'', ''25'', ''26'', ''27'',
        ''28'', ''29'', ''30'', ''31'', ''32''] \<and>
    \<not> closed (smc demo_reader) \<and> Keypoints2d (smc demo_reader) = Some (the (Keypoints2d demo_file)) \<and>
    map_of (the (Keypoints2d demo_file)) (py_str (PInt 18)) = Some demo_kp2d"
    by (simp add: demo_reader_def demo_file_def s18)
  from a b empty_list_stack_raises [of demo_reader _ _ "PStr ''00''" _ "''color''" demo_decode]
    empty_list_stack_raises [of demo_reader _ _ "PInt 18"]
  show ?thesis by blast
qed

end
